theory Spec2Isabelle
  imports Complex_Main "HOL-Library.Monad_Syntax"
begin

section \<open>Numeric model\<close>

text \<open>
  The two modules \<^verbatim>\<open>logo.py\<close> and \<^verbatim>\<open>github_ribbon.py\<close> compute a few closed-form
  curves with numpy and then issue a fixed sequence of matplotlib calls.

  The definitions of this section read the arithmetic exactly: a Python float is read
  as the real number it denotes, rounding is not modelled and no operation overflows.
  This is the code at the magnitudes of the logo; the section on overflow below reads
  the same lines with infinities, NaN and \<^verbatim>\<open>OverflowError\<close>, and the two readings are
  proved to agree for arguments of magnitude at most \<^verbatim>\<open>1e150\<close>. In the exact reading
  the one operation that is not defined on every real is \<^verbatim>\<open>np.sqrt\<close>, which yields NaN
  on a negative argument. A possibly-NaN value is a \<^typ>\<open>real option\<close>, \<^const>\<open>None\<close>
  standing for NaN; NaN is absorbing for the arithmetic that follows, which is what the
  option monad gives.

  numpy applies every operation of the source element by element, so each function is
  given as a kernel on one element (suffix \<open>_elem\<close>) and as its lifting to arrays
  (the source's name), an array being a list.
\<close>

definition np_sqrt :: "real \<Rightarrow> real option" where
  "np_sqrt v = (if v < 0 then None else Some (sqrt v))"

text \<open>\<^verbatim>\<open>maximum(x)\<close>: \<^verbatim>\<open>np.maximum(x, 0)\<close>.\<close>

definition maximum_elem :: "real \<Rightarrow> real" where
  "maximum_elem v = max v 0"

definition maximum :: "real list \<Rightarrow> real list" where
  "maximum x = map maximum_elem x"

text \<open>
  \<^verbatim>\<open>circle(x, r, a, b, x_lim)\<close>. A comparison such as \<^verbatim>\<open>x >= x_lim[0]\<close> is a Boolean
  that the multiplication reads as 0 or 1 (\<^const>\<open>of_bool\<close>). By Python's precedence the
  two indicators inside the square root multiply \<^verbatim>\<open>(x - a) ** 2\<close> only, not \<^verbatim>\<open>r ** 2\<close>.
  \<open>circle_sqrt_arg\<close> is the argument handed to \<^verbatim>\<open>np.sqrt\<close>.
\<close>

definition circle_sqrt_arg :: "real \<Rightarrow> real \<Rightarrow> real \<Rightarrow> real \<times> real \<Rightarrow> real" where
  "circle_sqrt_arg x r a x_lim =
     maximum_elem
       (r ^ 2 - ((x - a) ^ 2) * of_bool (x \<ge> fst x_lim) * of_bool (x \<le> snd x_lim))"

definition circle_elem ::
  "real \<Rightarrow> real \<Rightarrow> real \<Rightarrow> real \<Rightarrow> real \<times> real \<Rightarrow> real option" where
  "circle_elem x r a b x_lim =
     do { root \<leftarrow> np_sqrt (circle_sqrt_arg x r a x_lim);
          Some ((b + root) * of_bool (x \<ge> fst x_lim) * of_bool (x \<le> snd x_lim)) }"

definition circle ::
  "real list \<Rightarrow> real \<Rightarrow> real \<Rightarrow> real \<Rightarrow> real \<times> real \<Rightarrow> real option list" where
  "circle x r a b x_lim = map (\<lambda>v. circle_elem v r a b x_lim) x"

text \<open>
  \<^verbatim>\<open>pyts_time_series(x)\<close>. \<open>s_offset\<close> is the summand of the statement
  \<^verbatim>\<open>s += 0.1 * (x >= 0.9) * (x <= 1.2)\<close>.
\<close>

definition s_offset :: "real \<Rightarrow> real" where
  "s_offset x = 0.1 * of_bool (x \<ge> 0.9) * of_bool (x \<le> 1.2)"

definition pyts_time_series_elem :: "real \<Rightarrow> real option" where
  "pyts_time_series_elem x =
     do { p \<leftarrow> circle_elem x 0.2 0 0 (- 0.2, 0.2);
          y \<leftarrow> map_option uminus (circle_elem x 0.2 0.4 0 (0.2, 0.6));
          let t = 0;
          s \<leftarrow> circle_elem x 0.125 0.9 (- 0.025) (0.775, 0.9);
          let s = s + s_offset x;
          Some (p + y + t + s) }"

definition pyts_time_series :: "real list \<Rightarrow> real option list" where
  "pyts_time_series x = map pyts_time_series_elem x"

text \<open>
  \<^verbatim>\<open>np.linspace(start, stop, num)\<close> with the default \<^verbatim>\<open>endpoint=True\<close>: \<open>num\<close> evenly
  spaced samples from \<open>start\<close> to \<open>stop\<close>; a single sample is \<open>start\<close>.
\<close>

definition linspace :: "real \<Rightarrow> real \<Rightarrow> nat \<Rightarrow> real list" where
  "linspace start stop num =
     (if num = 1 then [start]
      else map (\<lambda>i. start + real i * ((stop - start) / real (num - 1))) [0..<num])"

section \<open>Overflow, infinities and NaN\<close>

text \<open>
  The definitions above read the arithmetic exactly, which describes the code as long
  as no operation overflows. A double has a largest finite value: an operation whose
  exact result reaches \<open>overflow_threshold\<close> in magnitude yields an infinity in
  numpy, and raises \<^verbatim>\<open>OverflowError\<close> in the power operator of a Python float. The
  infinities and NaN then follow the IEEE rules: infinity times zero and infinity minus
  infinity are NaN, and NaN is absorbing, also for \<^verbatim>\<open>np.maximum\<close>.

  The definitions of this section read the same source lines with these rules. The
  arguments are finite floats, read as the reals they denote; rounding of a result
  that does not overflow is still not modelled. As the docstring of \<^verbatim>\<open>circle\<close> has
  it, \<open>x\<close> is an element of a numpy array and \<open>r\<close>, \<open>a\<close>, \<open>b\<close> and the limits are
  Python floats, so \<^verbatim>\<open>r ** 2\<close> is Python's operator and every other operation is
  numpy's.
\<close>

datatype npfloat = Fin real | PInf | NInf | NaN

datatype py_error = OverflowError

definition overflow_threshold :: real where
  "overflow_threshold = 2 ^ 1024 - 2 ^ 970"

definition overflow :: "real \<Rightarrow> npfloat" where
  "overflow v =
     (if overflow_threshold \<le> v then PInf
      else if v \<le> - overflow_threshold then NInf
      else Fin v)"

text \<open>
  Arguments of magnitude at most \<open>safe_magnitude\<close> (\<^verbatim>\<open>1e150\<close>) keep every intermediate
  result of \<^verbatim>\<open>circle\<close> below the threshold.
\<close>

definition safe_magnitude :: real where
  "safe_magnitude = 10 ^ 150"

text \<open>\<^verbatim>\<open>r ** 2\<close> on a Python float.\<close>

definition py_square :: "real \<Rightarrow> py_error + real" where
  "py_square r = (if overflow_threshold \<le> r ^ 2 then Inl OverflowError else Inr (r ^ 2))"

text \<open>numpy's \<^verbatim>\<open>+\<close>, \<^verbatim>\<open>-\<close>, unary minus, \<^verbatim>\<open>** 2\<close>, product with a Boolean,
  \<^verbatim>\<open>np.maximum(., 0)\<close> and \<^verbatim>\<open>np.sqrt\<close>.\<close>

fun np_add :: "npfloat \<Rightarrow> npfloat \<Rightarrow> npfloat" where
  "np_add (Fin u) (Fin v) = overflow (u + v)"
| "np_add NaN _ = NaN"
| "np_add _ NaN = NaN"
| "np_add PInf NInf = NaN"
| "np_add NInf PInf = NaN"
| "np_add PInf _ = PInf"
| "np_add _ PInf = PInf"
| "np_add NInf _ = NInf"
| "np_add _ NInf = NInf"

fun np_neg :: "npfloat \<Rightarrow> npfloat" where
  "np_neg (Fin v) = Fin (- v)"
| "np_neg PInf = NInf"
| "np_neg NInf = PInf"
| "np_neg NaN = NaN"

definition np_sub :: "npfloat \<Rightarrow> npfloat \<Rightarrow> npfloat" where
  "np_sub u v = np_add u (np_neg v)"

fun np_square :: "npfloat \<Rightarrow> npfloat" where
  "np_square (Fin v) = overflow (v ^ 2)"
| "np_square PInf = PInf"
| "np_square NInf = PInf"
| "np_square NaN = NaN"

fun np_times_bool :: "npfloat \<Rightarrow> bool \<Rightarrow> npfloat" where
  "np_times_bool (Fin v) c = Fin (v * of_bool c)"
| "np_times_bool NaN c = NaN"
| "np_times_bool u True = u"
| "np_times_bool u False = NaN"

fun np_maximum0 :: "npfloat \<Rightarrow> npfloat" where
  "np_maximum0 (Fin v) = Fin (max v 0)"
| "np_maximum0 PInf = PInf"
| "np_maximum0 NInf = Fin 0"
| "np_maximum0 NaN = NaN"

fun np_sqrt_ieee :: "npfloat \<Rightarrow> npfloat" where
  "np_sqrt_ieee (Fin v) = (if v < 0 then NaN else Fin (sqrt v))"
| "np_sqrt_ieee PInf = PInf"
| "np_sqrt_ieee NInf = NaN"
| "np_sqrt_ieee NaN = NaN"

text \<open>
  \<^verbatim>\<open>circle\<close> with these operations. \<open>circle_sqrt_arg_ieee\<close> is the argument handed to
  \<^verbatim>\<open>np.sqrt\<close>, given the value \<open>r2\<close> of \<^verbatim>\<open>r ** 2\<close>; \<^verbatim>\<open>r ** 2\<close> is the first operation
  evaluated, so an \<^verbatim>\<open>OverflowError\<close> there is the outcome of the call.
\<close>

definition circle_sqrt_arg_ieee :: "real \<Rightarrow> real \<Rightarrow> real \<Rightarrow> real \<times> real \<Rightarrow> npfloat" where
  "circle_sqrt_arg_ieee x r2 a x_lim =
     np_maximum0
       (np_sub (Fin r2)
          (np_times_bool
             (np_times_bool (np_square (np_sub (Fin x) (Fin a))) (x \<ge> fst x_lim))
             (x \<le> snd x_lim)))"

definition circle_ieee ::
  "real \<Rightarrow> real \<Rightarrow> real \<Rightarrow> real \<Rightarrow> real \<times> real \<Rightarrow> py_error + npfloat" where
  "circle_ieee x r a b x_lim =
     (case py_square r of
        Inl e \<Rightarrow> Inl e
      | Inr r2 \<Rightarrow>
          Inr (np_times_bool
                 (np_times_bool
                    (np_add (Fin b) (np_sqrt_ieee (circle_sqrt_arg_ieee x r2 a x_lim)))
                    (x \<ge> fst x_lim))
                 (x \<le> snd x_lim)))"

text \<open>\<^verbatim>\<open>pyts_time_series\<close> with these operations; the sum is evaluated from the left.\<close>

definition pyts_time_series_ieee :: "real \<Rightarrow> py_error + npfloat" where
  "pyts_time_series_ieee x =
     (case circle_ieee x 0.2 0 0 (- 0.2, 0.2) of
        Inl e \<Rightarrow> Inl e
      | Inr p \<Rightarrow>
     (case circle_ieee x 0.2 0.4 0 (0.2, 0.6) of
        Inl e \<Rightarrow> Inl e
      | Inr c \<Rightarrow>
     (let y = np_neg c; t = Fin 0 in
     (case circle_ieee x 0.125 0.9 (- 0.025) (0.775, 0.9) of
        Inl e \<Rightarrow> Inl e
      | Inr s \<Rightarrow>
     (let s = np_add s (np_times_bool (np_times_bool (Fin 0.1) (x \<ge> 0.9)) (x \<le> 1.2))
      in Inr (np_add (np_add (np_add p y) t) s))))))"

section \<open>The plotting calls\<close>

text \<open>
  Both entry points return nothing; what they do is the sequence of matplotlib calls
  they issue. A run is modelled as that sequence, in program order. Colours, colour
  maps, paths and style names are strings; an optional argument is an option.
\<close>

datatype patch =
    Polygon "(real \<times> real) list" string
      \<comment> \<open>\<open>xy\<close>, \<open>color\<close>\<close>
  | Arc "real \<times> real" real real real real string real string string "nat option"
      \<comment> \<open>\<open>xy\<close>, \<open>width\<close>, \<open>height\<close>, \<open>theta1\<close>, \<open>theta2\<close>, \<open>facecolor\<close>, \<open>lw\<close>,
          \<open>edgecolor\<close>, \<open>capstyle\<close>, \<open>zorder\<close>\<close>
  | Rectangle "real \<times> real" real real bool string nat
      \<comment> \<open>\<open>xy\<close>, \<open>width\<close>, \<open>height\<close>, \<open>fill\<close>, \<open>color\<close>, \<open>zorder\<close>\<close>

datatype line2d =
    Line2D "real list" "real list" real string string
      \<comment> \<open>\<open>xdata\<close>, \<open>ydata\<close>, \<open>lw\<close>, \<open>color\<close>, \<open>solid_capstyle\<close>\<close>

type_synonym point = "real \<times> real option"

datatype line_collection =
    LineCollection "(point \<times> point) list" string "real \<times> real" string nat "real list" real
      \<comment> \<open>\<open>segments\<close>, \<open>cmap\<close>, \<open>norm\<close> as (vmin, vmax), \<open>capstyle\<close>, \<open>zorder\<close>,
          the array of \<open>set_array\<close>, the width of \<open>set_linewidth\<close>\<close>

datatype fontdict =
    FontDict string real string
      \<comment> \<open>\<open>fontname\<close>, \<open>fontsize\<close>, \<open>fontweight\<close>\<close>

datatype plt_call =
    PltFigure "real \<times> real" bool
      \<comment> \<open>\<open>plt.figure(figsize, frameon)\<close>\<close>
  | AddSubplot nat string
      \<comment> \<open>\<open>fig.add_subplot(111, aspect)\<close>\<close>
  | PltSubplots "real \<times> real" bool
      \<comment> \<open>\<open>plt.subplots(figsize, frameon)\<close>\<close>
  | AxisOff
  | AddPatch patch
  | AddLine line2d
  | AddCollection line_collection
  | PltText real real string string fontdict string string real
      \<comment> \<open>\<open>x\<close>, \<open>y\<close>, \<open>s\<close>, \<open>color\<close>, \<open>fontdict\<close>, \<open>ha\<close>, \<open>va\<close>, \<open>rotation\<close>\<close>
  | PltPlot "real list" "real list" string string real
      \<comment> \<open>\<open>x\<close>, \<open>y\<close>, format, \<open>color\<close>, \<open>lw\<close>\<close>
  | PltXlim real real
  | PltYlim real real
  | TightLayout
  | PltSavefig string real "bool option"
      \<comment> \<open>\<open>fname\<close>, \<open>dpi\<close>, \<open>transparent\<close> when passed\<close>
  | PltShow

text \<open>\<^verbatim>\<open>make_github_ribbon\<close> of \<^verbatim>\<open>github_ribbon.py\<close>.\<close>

definition make_github_ribbon ::
  "string \<Rightarrow> string \<Rightarrow> string \<Rightarrow> real \<Rightarrow> real \<times> real \<Rightarrow> string option \<Rightarrow> real
     \<Rightarrow> plt_call list" where
  "make_github_ribbon background_color text_color text fontsize figsize output_file dpi =
     (let left = 0.3; center = 0.4; right = 0.6;
          x = [left, center, right, right];
          y = [right, right, center, left];
          fontdict = FontDict ''DejaVu Sans'' fontsize ''heavy'';
          epsilon = 0.005
      in [PltFigure figsize False,
          AddSubplot 111 ''equal'',
          AxisOff,
          AddPatch (Polygon (zip x y) background_color),
          PltText 0.475 0.475 text text_color fontdict ''center'' ''center'' (- 45),
          PltPlot [left + epsilon, right] [right, left + epsilon] ''--'' text_color 0.6,
          PltPlot [center - epsilon, right] [right, center - epsilon] ''--'' text_color 0.6,
          PltXlim left right,
          PltYlim left right]
         @ (case output_file of
              None \<Rightarrow> []
            | Some fname \<Rightarrow> [PltSavefig fname dpi (Some True)])
         @ [PltShow])"

text \<open>
  \<^verbatim>\<open>make_pyts_logo\<close> of \<^verbatim>\<open>logo.py\<close>. An \<^verbatim>\<open>Arc\<close> that is given no angles spans
  matplotlib's defaults \<open>theta1 = 0\<close>, \<open>theta2 = 360\<close>. The segments of the line
  collection join each sample point to the next one.
\<close>

definition make_pyts_logo :: "string \<Rightarrow> string \<Rightarrow> string option \<Rightarrow> real \<Rightarrow> plt_call list" where
  "make_pyts_logo cmap background_color output_file dpi =
     (let figsize = (5, 3);
          radius = 0.2;
          linewidth = 20;
          line = (\<lambda>xdata ydata. Line2D xdata ydata linewidth background_color ''round'');
          arc = (\<lambda>xy width height theta1 theta2.
                   Arc xy width height theta1 theta2 ''none'' linewidth background_color
                     ''round'' None);
          arc_p = arc (0, 0) (2 * radius) (2 * radius) 0 360;
          line_p = line [- 0.2, - 0.2] [- 0.6, 0.2];
          line_left_y = line [0.2, 0.2] [0, 0.15];
          line_right_y = line [0.6, 0.6] [0.15, - 0.4];
          arc_lower_y = arc (0.4, - 0.4) (2 * radius) (2 * radius) (- 180) 0;
          arc_t = arc (0.7, - 0.3) radius radius (- 165) (- 90);
          line_middle_t = line [0.5, 0.6] [0, 0];
          line_lower_t = line [0.7, 0.9] [- 0.4, - 0.4];
          arc_lower_s = arc (0.9, - 0.275) (1.25 * radius) (1.25 * radius) (- 90) 91;
          arc_upper_s = Arc (0.9, - 0.025) (1.25 * radius) (1.25 * radius) 181 (- 90)
                          ''none'' linewidth background_color ''butt'' (Some 2);
          x = linspace (- 0.2) 1.2 800;
          y = pyts_time_series x;
          points = zip x y;
          segments = zip (butlast points) (tl points);
          norm = (- 0.2, 1.1);
          lc = LineCollection segments cmap norm ''round'' 3 x linewidth;
          arc_upper_s2 = Arc (0.854, - 0.05) (0.5 * radius) (0.3 * radius) 180 (- 150)
                           ''none'' (1.1 * linewidth) background_color ''butt'' (Some 4);
          rectangle_patch = Rectangle (0.8312, - 0.05) 0.1 0.05 True ''white'' 5
      in [PltSubplots figsize False,
          AxisOff,
          AddPatch arc_p,
          AddLine line_p,
          AddLine line_left_y,
          AddLine line_right_y,
          AddPatch arc_lower_y,
          AddPatch arc_t,
          AddLine line_middle_t,
          AddLine line_lower_t,
          AddPatch arc_lower_s,
          AddPatch arc_upper_s,
          AddCollection lc,
          AddPatch arc_upper_s2,
          AddPatch rectangle_patch,
          PltXlim (- 0.25) 1.25,
          PltYlim (- 0.65) 0.25,
          TightLayout]
         @ (case output_file of
              None \<Rightarrow> []
            | Some fname \<Rightarrow> [PltSavefig fname dpi None])
         @ [PltShow])"

text \<open>
  Reading a run: the calls that write a file, those together with the calls that
  display, the polygons drawn, the view bounds.
\<close>

fun savefig_calls :: "plt_call list \<Rightarrow> plt_call list" where
  "savefig_calls [] = []"
| "savefig_calls (PltSavefig fname dpi tr # cs) = PltSavefig fname dpi tr # savefig_calls cs"
| "savefig_calls (_ # cs) = savefig_calls cs"

fun polygons :: "plt_call list \<Rightarrow> (real \<times> real) list list" where
  "polygons [] = []"
| "polygons (AddPatch (Polygon xy c) # cs) = xy # polygons cs"
| "polygons (_ # cs) = polygons cs"

fun xlims :: "plt_call list \<Rightarrow> (real \<times> real) list" where
  "xlims [] = []"
| "xlims (PltXlim lo hi # cs) = (lo, hi) # xlims cs"
| "xlims (_ # cs) = xlims cs"

fun ylims :: "plt_call list \<Rightarrow> (real \<times> real) list" where
  "ylims [] = []"
| "ylims (PltYlim lo hi # cs) = (lo, hi) # ylims cs"
| "ylims (_ # cs) = ylims cs"

fun save_show_calls :: "plt_call list \<Rightarrow> plt_call list" where
  "save_show_calls [] = []"
| "save_show_calls (PltSavefig fname dpi tr # cs) = PltSavefig fname dpi tr # save_show_calls cs"
| "save_show_calls (PltShow # cs) = PltShow # save_show_calls cs"
| "save_show_calls (_ # cs) = save_show_calls cs"

section \<open>Facts about the arc formula\<close>

lemma sqrt_square_nonneg: "0 \<le> v \<Longrightarrow> sqrt (v ^ 2) = v"
  by simp

lemma np_sqrt_negative_is_nan: "v < 0 \<Longrightarrow> np_sqrt v = None"
  by (simp add: np_sqrt_def)

text \<open>
  Without the clamp the square root would see a negative number inside the interval as
  soon as \<open>x\<close> is further than \<open>r\<close> from the centre.
\<close>

lemma unclamped_radicand_nan_example: "np_sqrt (0.1 ^ 2 - (0.5 - 0) ^ 2) = None"
  by (simp add: np_sqrt_def power2_eq_square)

lemma circle_sqrt_arg_nonneg: "0 \<le> circle_sqrt_arg x r a x_lim"
  by (simp add: circle_sqrt_arg_def maximum_elem_def)

lemma circle_elem_Some:
  "circle_elem x r a b x_lim =
     Some ((b + sqrt (circle_sqrt_arg x r a x_lim))
             * of_bool (x \<ge> fst x_lim) * of_bool (x \<le> snd x_lim))"
  using circle_sqrt_arg_nonneg [of x r a x_lim]
  by (simp add: circle_elem_def np_sqrt_def)

lemma circle_elem_outside:
  "x < fst x_lim \<or> snd x_lim < x \<Longrightarrow> circle_elem x r a b x_lim = Some 0"
  by (auto simp add: circle_elem_Some)

lemma circle_sqrt_arg_inside:
  "fst x_lim \<le> x \<Longrightarrow> x \<le> snd x_lim \<Longrightarrow>
     circle_sqrt_arg x r a x_lim = max (r ^ 2 - (x - a) ^ 2) 0"
  by (simp add: circle_sqrt_arg_def maximum_elem_def)

lemma pyts_time_series_elem_total: "\<exists>v. pyts_time_series_elem x = Some v"
  by (simp add: pyts_time_series_elem_def circle_elem_Some)

subsection \<open>Values of the terms at the points of interest\<close>

lemma p_term_at_0: "circle_elem 0 0.2 0 0 (- 0.2, 0.2) = Some 0.2"
proof -
  have "sqrt ((0.2::real) ^ 2) = 0.2" by (rule sqrt_square_nonneg) simp
  then show ?thesis by (simp add: circle_elem_Some circle_sqrt_arg_inside)
qed

lemma pyts_at_0: "pyts_time_series_elem 0 = Some 0.2"
  using p_term_at_0
  by (simp add: pyts_time_series_elem_def circle_elem_outside s_offset_def)

lemma s_term_at_0_9: "circle_elem 0.9 0.125 0.9 (- 0.025) (0.775, 0.9) = Some 0.1"
proof -
  have "sqrt ((0.125::real) ^ 2) = 0.125" by (rule sqrt_square_nonneg) simp
  then show ?thesis by (simp add: circle_elem_Some circle_sqrt_arg_inside)
qed

text \<open>
  At \<open>x = 0.9\<close> the closed interval of the s-bump and the closed interval of the offset
  both contain the point, so both summands are counted there.
\<close>

lemma pyts_at_0_9: "pyts_time_series_elem 0.9 = Some 0.2"
  using s_term_at_0_9
  by (simp add: pyts_time_series_elem_def circle_elem_outside s_offset_def)

lemma pyts_at_1: "pyts_time_series_elem 1.0 = Some 0.1"
  by (simp add: pyts_time_series_elem_def circle_elem_outside s_offset_def)

lemma p_term_at_0_2: "circle_elem 0.2 0.2 0 0 (- 0.2, 0.2) = Some 0"
  by (simp add: circle_elem_Some circle_sqrt_arg_inside)

lemma y_term_at_0_2: "circle_elem 0.2 0.2 0.4 0 (0.2, 0.6) = Some 0"
  by (simp add: circle_elem_Some circle_sqrt_arg_inside)

lemma pyts_at_0_2: "pyts_time_series_elem 0.2 = Some 0"
  using p_term_at_0_2 y_term_at_0_2
  by (simp add: pyts_time_series_elem_def circle_elem_outside s_offset_def)

section \<open>Facts about overflow\<close>

lemma safe_magnitude_ge_1: "1 \<le> safe_magnitude"
  by (simp add: safe_magnitude_def)

lemma safe_sum_below_threshold: "2 * safe_magnitude < overflow_threshold"
  by (simp add: overflow_threshold_def safe_magnitude_def)

lemma safe_square_below_threshold: "4 * safe_magnitude ^ 2 < overflow_threshold"
  by (simp add: overflow_threshold_def safe_magnitude_def)

lemma overflow_in_range: "\<bar>v\<bar> < overflow_threshold \<Longrightarrow> overflow v = Fin v"
  by (auto simp add: overflow_def)

lemma np_sub_NaN: "np_sub u NaN = NaN"
  by (cases u) (simp_all add: np_sub_def)

lemma square_le_of_abs_le: "\<bar>d\<bar> \<le> c \<Longrightarrow> d ^ 2 \<le> (c::real) ^ 2"
  using power_mono [of "\<bar>d\<bar>" c 2] by simp

lemma py_square_in_range:
  assumes "\<bar>r\<bar> \<le> safe_magnitude"
  shows "py_square r = Inr (r ^ 2)"
proof -
  have "r ^ 2 \<le> safe_magnitude ^ 2"
    using assms by (rule square_le_of_abs_le)
  moreover have "0 \<le> safe_magnitude ^ 2" by simp
  ultimately have "r ^ 2 < overflow_threshold"
    using safe_square_below_threshold by linarith
  then show ?thesis by (simp add: py_square_def)
qed

lemma circle_sqrt_arg_ieee_in_range:
  assumes x: "\<bar>x\<bar> \<le> safe_magnitude" and r: "\<bar>r\<bar> \<le> safe_magnitude"
    and a: "\<bar>a\<bar> \<le> safe_magnitude"
  shows "circle_sqrt_arg_ieee x (r ^ 2) a x_lim = Fin (circle_sqrt_arg x r a x_lim)"
proof -
  define m :: real where "m = of_bool (x \<ge> fst x_lim) * of_bool (x \<le> snd x_lim)"
  define d2 where "d2 = (x - a) ^ 2"
  define r2 where "r2 = r ^ 2"
  define B2 where "B2 = safe_magnitude ^ 2"
  have m01: "m = 0 \<or> m = 1" by (auto simp add: m_def)
  have d_le: "\<bar>x - a\<bar> \<le> 2 * safe_magnitude" using x a by linarith
  then have d_abs: "\<bar>x - a\<bar> < overflow_threshold"
    using safe_sum_below_threshold by linarith
  have "(x - a) ^ 2 \<le> (2 * safe_magnitude) ^ 2"
    using d_le by (rule square_le_of_abs_le)
  then have d2_le: "d2 \<le> 4 * B2" by (simp add: d2_def B2_def power_mult_distrib)
  have r2_le: "r2 \<le> B2"
    unfolding r2_def B2_def using r by (rule square_le_of_abs_le)
  have d2_nonneg: "0 \<le> d2" and r2_nonneg: "0 \<le> r2" by (simp_all add: d2_def r2_def)
  have T: "4 * B2 < overflow_threshold"
    unfolding B2_def by (rule safe_square_below_threshold)
  have step1: "np_sub (Fin x) (Fin a) = Fin (x - a)"
    using d_abs by (simp add: np_sub_def overflow_in_range)
  have "\<bar>d2\<bar> < overflow_threshold" using d2_le d2_nonneg T by linarith
  then have step2: "np_square (Fin (x - a)) = Fin d2"
    by (simp add: overflow_in_range d2_def)
  have step3: "np_times_bool (np_times_bool (Fin d2) (x \<ge> fst x_lim)) (x \<le> snd x_lim)
                 = Fin (d2 * m)"
    by (simp add: m_def)
  have "\<bar>r2 - d2 * m\<bar> \<le> 4 * B2"
    using m01 d2_le r2_le d2_nonneg r2_nonneg by auto
  then have "\<bar>r2 - d2 * m\<bar> < overflow_threshold" using T by linarith
  then have step4: "np_sub (Fin r2) (Fin (d2 * m)) = Fin (r2 - d2 * m)"
    by (simp add: np_sub_def overflow_in_range)
  have "circle_sqrt_arg_ieee x r2 a x_lim = Fin (max (r2 - d2 * m) 0)"
    unfolding circle_sqrt_arg_ieee_def step1 step2 step3 step4 by simp
  moreover have "circle_sqrt_arg x r a x_lim = max (r2 - d2 * m) 0"
    by (simp add: circle_sqrt_arg_def maximum_elem_def m_def d2_def r2_def mult.assoc)
  ultimately show ?thesis by (simp add: r2_def)
qed

lemma circle_sqrt_arg_le: "circle_sqrt_arg x r a x_lim \<le> r ^ 2"
  by (simp add: circle_sqrt_arg_def maximum_elem_def)

lemma circle_ieee_in_range:
  assumes x: "\<bar>x\<bar> \<le> safe_magnitude" and r: "\<bar>r\<bar> \<le> safe_magnitude"
    and a: "\<bar>a\<bar> \<le> safe_magnitude" and b: "\<bar>b\<bar> \<le> safe_magnitude"
  shows "circle_ieee x r a b x_lim =
           Inr (Fin ((b + sqrt (circle_sqrt_arg x r a x_lim))
                       * of_bool (x \<ge> fst x_lim) * of_bool (x \<le> snd x_lim)))"
proof -
  define root where "root = sqrt (circle_sqrt_arg x r a x_lim)"
  have "r ^ 2 \<le> safe_magnitude ^ 2"
    using r by (rule square_le_of_abs_le)
  then have "circle_sqrt_arg x r a x_lim \<le> safe_magnitude ^ 2"
    using circle_sqrt_arg_le [of x r a x_lim] by linarith
  then have "root \<le> sqrt (safe_magnitude ^ 2)"
    unfolding root_def by (simp only: real_sqrt_le_iff)
  then have root_le: "root \<le> safe_magnitude"
    using safe_magnitude_ge_1 by simp
  have root_ge: "0 \<le> root"
    unfolding root_def using circle_sqrt_arg_nonneg [of x r a x_lim] by simp
  have "\<bar>b + root\<bar> \<le> 2 * safe_magnitude"
    using b root_le root_ge by linarith
  then have "\<bar>b + root\<bar> < overflow_threshold"
    using safe_sum_below_threshold by linarith
  then have add: "overflow (b + root) = Fin (b + root)"
    by (rule overflow_in_range)
  have arg: "np_sqrt_ieee (circle_sqrt_arg_ieee x (r ^ 2) a x_lim) = Fin root"
    using circle_sqrt_arg_nonneg [of x r a x_lim]
    by (simp add: circle_sqrt_arg_ieee_in_range [OF x r a] root_def)
  have "circle_ieee x r a b x_lim =
          Inr (np_times_bool (np_times_bool (Fin (b + root)) (x \<ge> fst x_lim))
                 (x \<le> snd x_lim))"
    by (simp add: circle_ieee_def py_square_in_range [OF r] arg add)
  then show ?thesis by (simp add: root_def)
qed

lemma circle_ieee_agrees:
  assumes "\<bar>x\<bar> \<le> safe_magnitude" and "\<bar>r\<bar> \<le> safe_magnitude"
    and "\<bar>a\<bar> \<le> safe_magnitude" and "\<bar>b\<bar> \<le> safe_magnitude"
    and "circle_elem x r a b x_lim = Some v"
  shows "circle_ieee x r a b x_lim = Inr (Fin v)"
  using assms by (simp add: circle_ieee_in_range circle_elem_Some)

subsection \<open>Beyond the threshold\<close>

lemma two_512_finite: "\<bar>2 ^ 512\<bar> < overflow_threshold"
  by (simp add: overflow_threshold_def)

lemma two_512_square_overflows: "overflow_threshold \<le> (2 ^ 512) ^ 2"
  by (simp add: overflow_threshold_def)

lemma small_radii_safe: "\<bar>0.2\<bar> \<le> safe_magnitude" "\<bar>0.125\<bar> \<le> safe_magnitude"
  using safe_magnitude_ge_1 by simp_all

lemma sqrt_arg_ieee_huge_x:
  assumes "x_lim = (lo, hi)" and "lo \<le> 2 ^ 512" and "hi < 2 ^ 512"
  shows "circle_sqrt_arg_ieee (2 ^ 512) r2 0 x_lim = NaN"
proof -
  have "np_sub (Fin (2 ^ 512)) (Fin 0) = Fin (2 ^ 512)"
    using two_512_finite by (simp add: np_sub_def overflow_in_range)
  moreover have "np_square (Fin (2 ^ 512)) = PInf"
    using two_512_square_overflows by (simp add: overflow_def)
  ultimately show ?thesis using assms by (simp add: circle_sqrt_arg_ieee_def np_sub_NaN)
qed

lemma circle_ieee_huge_x:
  assumes r: "\<bar>r\<bar> \<le> safe_magnitude" and lo: "lo \<le> 2 ^ 512" and hi: "hi < 2 ^ 512"
  shows "circle_ieee (2 ^ 512) r 0 b (lo, hi) = Inr NaN"
proof -
  have "circle_sqrt_arg_ieee (2 ^ 512) (r ^ 2) 0 (lo, hi) = NaN"
    using lo hi by (intro sqrt_arg_ieee_huge_x [of _ lo hi]) simp_all
  then show ?thesis
    using py_square_in_range [OF r] lo hi by (simp add: circle_ieee_def)
qed

lemma circle_ieee_huge_r: "circle_ieee 0 (2 ^ 512) 0 0 (- 0.2, 0.2) = Inl OverflowError"
  using two_512_square_overflows by (simp add: circle_ieee_def py_square_def)

lemma circle_ieee_no_raise:
  "\<bar>r\<bar> \<le> safe_magnitude \<Longrightarrow> \<exists>v. circle_ieee x r a b x_lim = Inr v"
  by (simp add: circle_ieee_def py_square_in_range)

lemma pyts_ieee_huge_x: "pyts_time_series_ieee (2 ^ 512) = Inr NaN"
proof -
  obtain c where c: "circle_ieee (2 ^ 512) 0.2 0.4 0 (0.2, 0.6) = Inr c"
    using circle_ieee_no_raise [OF small_radii_safe(1)] by blast
  obtain s where s: "circle_ieee (2 ^ 512) 0.125 0.9 (- 0.025) (0.775, 0.9) = Inr s"
    using circle_ieee_no_raise [OF small_radii_safe(2)] by blast
  have "circle_ieee (2 ^ 512) 0.2 0 0 (- 0.2, 0.2) = Inr NaN"
    using small_radii_safe(1) by (intro circle_ieee_huge_x) simp_all
  then show ?thesis
    using c s by (simp add: pyts_time_series_ieee_def Let_def)
qed

subsection \<open>The two readings agree on the curve\<close>

lemma circle_value_bound:
  assumes "circle_elem x r a b x_lim = Some v"
  shows "\<bar>v\<bar> \<le> \<bar>b\<bar> + \<bar>r\<bar>"
proof -
  define root where "root = sqrt (circle_sqrt_arg x r a x_lim)"
  have "root \<le> sqrt (r ^ 2)"
    unfolding root_def using circle_sqrt_arg_le [of x r a x_lim] by (simp only: real_sqrt_le_iff)
  then have "root \<le> \<bar>r\<bar>" by simp
  moreover have "0 \<le> root"
    unfolding root_def using circle_sqrt_arg_nonneg [of x r a x_lim] by simp
  moreover have "v = b + root \<or> v = 0"
    using assms by (auto simp add: circle_elem_Some root_def)
  ultimately show ?thesis by auto
qed

lemma pyts_time_series_ieee_agrees:
  assumes x: "\<bar>x\<bar> \<le> safe_magnitude" and v: "pyts_time_series_elem x = Some v"
  shows "pyts_time_series_ieee x = Inr (Fin v)"
proof -
  have small: "\<bar>0::real\<bar> \<le> safe_magnitude" "\<bar>0.2\<bar> \<le> safe_magnitude"
    "\<bar>0.4\<bar> \<le> safe_magnitude" "\<bar>0.125\<bar> \<le> safe_magnitude"
    "\<bar>0.9\<bar> \<le> safe_magnitude" "\<bar>- 0.025\<bar> \<le> safe_magnitude"
    using safe_magnitude_ge_1 by simp_all
  obtain p where p: "circle_elem x 0.2 0 0 (- 0.2, 0.2) = Some p"
    by (simp add: circle_elem_Some)
  obtain c where c: "circle_elem x 0.2 0.4 0 (0.2, 0.6) = Some c"
    by (simp add: circle_elem_Some)
  obtain s where s: "circle_elem x 0.125 0.9 (- 0.025) (0.775, 0.9) = Some s"
    by (simp add: circle_elem_Some)
  have p': "circle_ieee x 0.2 0 0 (- 0.2, 0.2) = Inr (Fin p)"
    using x small p by (intro circle_ieee_agrees)
  have c': "circle_ieee x 0.2 0.4 0 (0.2, 0.6) = Inr (Fin c)"
    using x small c by (intro circle_ieee_agrees)
  have s': "circle_ieee x 0.125 0.9 (- 0.025) (0.775, 0.9) = Inr (Fin s)"
    using x small s by (intro circle_ieee_agrees)
  have pb: "\<bar>p\<bar> \<le> 0.2" using circle_value_bound [OF p] by simp
  have cb: "\<bar>c\<bar> \<le> 0.2" using circle_value_bound [OF c] by simp
  have sb: "\<bar>s\<bar> \<le> 0.5" using circle_value_bound [OF s] by simp
  have ob: "0 \<le> s_offset x" "s_offset x \<le> 0.1" by (simp_all add: s_offset_def)
  have T: "2 < overflow_threshold"
    using safe_sum_below_threshold safe_magnitude_ge_1 by linarith
  have o1: "overflow (p + - c) = Fin (p + - c)"
    using pb cb T by (intro overflow_in_range) linarith
  have o2: "overflow (p + - c + 0) = Fin (p + - c + 0)"
    using pb cb T by (intro overflow_in_range) linarith
  have o3: "overflow (s + s_offset x) = Fin (s + s_offset x)"
    using sb ob T by (intro overflow_in_range) linarith
  have o4: "overflow (p + - c + 0 + (s + s_offset x)) = Fin (p + - c + 0 + (s + s_offset x))"
    using pb cb sb ob T by (intro overflow_in_range) linarith
  have off: "np_times_bool (np_times_bool (Fin 0.1) (x \<ge> 0.9)) (x \<le> 1.2) = Fin (s_offset x)"
    by (simp add: s_offset_def)
  have "pyts_time_series_ieee x = Inr (Fin (p + - c + 0 + (s + s_offset x)))"
    unfolding pyts_time_series_ieee_def p' c' s' Let_def off
    using o1 o2 o3 o4 by simp
  moreover have "v = p + - c + 0 + (s + s_offset x)"
    using v p c s by (simp add: pyts_time_series_elem_def)
  ultimately show ?thesis by simp
qed

text \<open>In particular the overflow-aware reading has the same values at the points below.\<close>

lemma pyts_time_series_ieee_at_points:
  "pyts_time_series_ieee 0 = Inr (Fin 0.2)"
  "pyts_time_series_ieee 0.2 = Inr (Fin 0)"
  "pyts_time_series_ieee 1.0 = Inr (Fin 0.1)"
proof -
  have small: "\<bar>0::real\<bar> \<le> safe_magnitude" "\<bar>0.2\<bar> \<le> safe_magnitude"
    "\<bar>1.0\<bar> \<le> safe_magnitude"
    using safe_magnitude_ge_1 by simp_all
  show "pyts_time_series_ieee 0 = Inr (Fin 0.2)"
    using small(1) pyts_at_0 by (rule pyts_time_series_ieee_agrees)
  show "pyts_time_series_ieee 0.2 = Inr (Fin 0)"
    using small(2) pyts_at_0_2 by (rule pyts_time_series_ieee_agrees)
  show "pyts_time_series_ieee 1.0 = Inr (Fin 0.1)"
    using small(3) pyts_at_1 by (rule pyts_time_series_ieee_agrees)
qed

lemma pyts_time_series_elem_outside:
  "x < - 0.2 \<or> x > 1.2 \<Longrightarrow> pyts_time_series_elem x = Some 0"
  by (auto simp add: pyts_time_series_elem_def circle_elem_outside s_offset_def)

section \<open>The overlay curve\<close>

text \<open>
  C1. \<^verbatim>\<open>pyts_time_series\<close> evaluated at \<open>x = 0\<close> is exactly 0.2: the first bump, of radius
  0.2 centred at 0, contributes 0.2 there and the second bump, the s-bump and the
  offset each contribute 0.
\<close>

theorem pyts_time_series_at_zero:
  "pyts_time_series_elem 0 = Some 0.2
   \<and> pyts_time_series [0] = [Some 0.2]
   \<and> circle_elem 0 0.2 0 0 (- 0.2, 0.2) = Some 0.2
   \<and> map_option uminus (circle_elem 0 0.2 0.4 0 (0.2, 0.6)) = Some 0
   \<and> circle_elem 0 0.125 0.9 (- 0.025) (0.775, 0.9) = Some 0
   \<and> s_offset 0 = 0"
  using pyts_at_0 p_term_at_0
  by (simp add: pyts_time_series_def circle_elem_outside s_offset_def)

text \<open>
  C2, as the code has it by design. At \<open>x = 0.9\<close> the s-bump, whose centre is at height
  \<open>-0.025\<close>, contributes \<open>-0.025 + 0.125 = 0.1\<close>, not 0.125, and the first two bumps
  contribute 0 there. At \<open>x = 1.0\<close> only the offset is left and the curve is 0.1.
\<close>

theorem pyts_time_series_at_s_bump:
  "circle_elem 0.9 0.125 0.9 (- 0.025) (0.775, 0.9) = Some 0.1
   \<and> circle_elem 0.9 0.2 0 0 (- 0.2, 0.2) = Some 0
   \<and> map_option uminus (circle_elem 0.9 0.2 0.4 0 (0.2, 0.6)) = Some 0
   \<and> pyts_time_series_elem 1.0 = Some 0.1
   \<and> s_offset 1.0 = 0.1"
  using s_term_at_0_9 pyts_at_1
  by (simp add: circle_elem_outside s_offset_def)

text \<open>C2 as stated fails: the value at \<open>x = 0.9\<close> is not 0.125.\<close>

theorem pyts_time_series_at_0_9_not_0_125:
  "pyts_time_series_elem 0.9 \<noteq> Some 0.125"
  using pyts_at_0_9 by simp

text \<open>
  C3, as the code has it. For arguments \<open>x\<close>, \<open>r\<close>, \<open>a\<close>, \<open>b\<close> of magnitude at most
  \<^verbatim>\<open>1e150\<close>, so that no intermediate result overflows: for every \<open>x\<close> outside the
  interval of an arc \<^verbatim>\<open>circle\<close> returns exactly 0, and the argument of the square root
  is a non-negative finite number, so the square root is not NaN.
\<close>

theorem circle_ieee_zero_outside_interval:
  assumes "\<bar>x\<bar> \<le> safe_magnitude" and "\<bar>r\<bar> \<le> safe_magnitude"
    and "\<bar>a\<bar> \<le> safe_magnitude" and "\<bar>b\<bar> \<le> safe_magnitude"
  shows "(x < fst x_lim \<or> x > snd x_lim \<longrightarrow> circle_ieee x r a b x_lim = Inr (Fin 0))
         \<and> (\<exists>v. 0 \<le> v \<and> circle_sqrt_arg_ieee x (r ^ 2) a x_lim = Fin v)
         \<and> np_sqrt_ieee (circle_sqrt_arg_ieee x (r ^ 2) a x_lim) \<noteq> NaN"
proof -
  have arg: "circle_sqrt_arg_ieee x (r ^ 2) a x_lim = Fin (circle_sqrt_arg x r a x_lim)"
    using assms(1-3) by (rule circle_sqrt_arg_ieee_in_range)
  have nonneg: "0 \<le> circle_sqrt_arg x r a x_lim"
    by (rule circle_sqrt_arg_nonneg)
  have "circle_ieee x r a b x_lim = Inr (Fin 0)" if "x < fst x_lim \<or> x > snd x_lim"
    using that by (auto simp add: circle_ieee_in_range [OF assms])
  then show ?thesis using arg nonneg by simp
qed

theorem circle_ieee_zero_outside_interval_witness:
  "\<bar>1\<bar> \<le> safe_magnitude \<and> \<bar>0.2\<bar> \<le> safe_magnitude \<and> \<bar>0\<bar> \<le> safe_magnitude
   \<and> (1::real) > snd (- 0.2, 0.2 :: real)
   \<and> circle_ieee 1 0.2 0 0 (- 0.2, 0.2) = Inr (Fin 0)
   \<and> (\<exists>v. 0 \<le> v \<and> circle_sqrt_arg_ieee 1 (0.2 ^ 2) 0 (- 0.2, 0.2) = Fin v)
   \<and> np_sqrt_ieee (circle_sqrt_arg_ieee 1 (0.2 ^ 2) 0 (- 0.2, 0.2)) \<noteq> NaN"
proof -
  have h: "\<bar>1\<bar> \<le> safe_magnitude" "\<bar>0.2\<bar> \<le> safe_magnitude" "\<bar>0\<bar> \<le> safe_magnitude"
    using safe_magnitude_ge_1 by simp_all
  show ?thesis
    using h circle_ieee_zero_outside_interval [OF h(1) h(2) h(3) h(3), of "(- 0.2, 0.2)"]
    by simp
qed

text \<open>
  C3 as stated fails: \<open>x = 2 ^ 512\<close> is a finite double outside the interval of the
  first bump, its square overflows, and both the argument of the square root and the
  result of \<^verbatim>\<open>circle\<close> are NaN.
\<close>

theorem circle_ieee_nan_outside_interval:
  "(2 ^ 512 :: real) > snd (- 0.2, 0.2 :: real)
   \<and> circle_sqrt_arg_ieee (2 ^ 512) (0.2 ^ 2) 0 (- 0.2, 0.2) = NaN
   \<and> circle_ieee (2 ^ 512) 0.2 0 0 (- 0.2, 0.2) = Inr NaN"
proof -
  have "circle_sqrt_arg_ieee (2 ^ 512) (0.2 ^ 2) 0 (- 0.2, 0.2) = NaN"
    by (rule sqrt_arg_ieee_huge_x [of _ "- 0.2" "0.2"]) simp_all
  moreover have "circle_ieee (2 ^ 512) 0.2 0 0 (- 0.2, 0.2) = Inr NaN"
    using small_radii_safe(1) by (intro circle_ieee_huge_x) simp_all
  ultimately show ?thesis by simp
qed

text \<open>
  C4. The curve is continuous at \<open>x = 0.2\<close>, where the first two bumps meet: the first
  bump is 0 there, the negated second bump is 0 there, the curve is 0 there, and the
  curve, which has a value at every \<open>x\<close>, is a continuous function at 0.2.
\<close>

theorem pyts_time_series_continuous_at_0_2:
  "circle_elem 0.2 0.2 0 0 (- 0.2, 0.2) = Some 0
   \<and> map_option uminus (circle_elem 0.2 0.2 0.4 0 (0.2, 0.6)) = Some 0
   \<and> pyts_time_series_elem 0.2 = Some 0
   \<and> (\<exists>g. (\<forall>x. pyts_time_series_elem x = Some (g x)) \<and> isCont g 0.2)"
proof -
  define g where "g = (\<lambda>x. the (pyts_time_series_elem x))"
  define h :: "real \<Rightarrow> real" where
    "h = (\<lambda>x. sqrt (max (0.2 ^ 2 - (min x 0.2) ^ 2) 0)
              - sqrt (max (0.2 ^ 2 - (max x 0.2 - 0.4) ^ 2) 0))"
  have g_Some: "pyts_time_series_elem x = Some (g x)" for x
    using pyts_time_series_elem_total [of x] by (auto simp add: g_def)
  have h_cont: "isCont h 0.2"
    unfolding h_def by (intro continuous_intros)
  have near: "g x = h x" if "x \<in> {0 <..< 0.4}" for x
  proof -
    consider "x < 0.2" | "x = 0.2" | "0.2 < x" by linarith
    then have "pyts_time_series_elem x = Some (h x)"
    proof cases
      case 1
      then show ?thesis using that
        by (simp add: pyts_time_series_elem_def circle_elem_Some circle_sqrt_arg_def
            maximum_elem_def s_offset_def h_def)
    next
      case 2
      have "h 0.2 = 0" by (simp add: h_def)
      then have "pyts_time_series_elem 0.2 = Some (h 0.2)" using pyts_at_0_2 by simp
      then show ?thesis unfolding 2 .
    next
      case 3
      then show ?thesis using that
        by (simp add: pyts_time_series_elem_def circle_elem_Some circle_sqrt_arg_def
            maximum_elem_def s_offset_def h_def)
    qed
    then show ?thesis using g_Some [of x] by simp
  qed
  have "eventually (\<lambda>x. g x = h x) (nhds 0.2)"
  proof (rule eventually_nhds_in_open [of "{0 <..< 0.4}", THEN eventually_mono])
    show "open {0::real <..< 0.4}" by simp
    show "(0.2::real) \<in> {0 <..< 0.4}" by simp
  qed (rule near)
  then have "isCont g 0.2 = isCont h 0.2" by (rule isCont_cong)
  then have "isCont g 0.2" using h_cont by simp
  then have "\<exists>g. (\<forall>x. pyts_time_series_elem x = Some (g x)) \<and> isCont g 0.2"
    using g_Some by blast
  then show ?thesis using p_term_at_0_2 y_term_at_0_2 pyts_at_0_2 by simp
qed

text \<open>
  C9, as the code has it. For every \<open>x\<close> strictly outside the sampled domain, below
  \<open>-0.2\<close> or above 1.2, and of magnitude at most \<^verbatim>\<open>1e150\<close>, the curve is 0: every bump
  and the offset are 0 there.
\<close>

theorem pyts_time_series_ieee_zero_outside:
  assumes "x < - 0.2 \<or> x > 1.2" and "\<bar>x\<bar> \<le> safe_magnitude"
  shows "pyts_time_series_ieee x = Inr (Fin 0)
         \<and> circle_ieee x 0.2 0 0 (- 0.2, 0.2) = Inr (Fin 0)
         \<and> circle_ieee x 0.2 0.4 0 (0.2, 0.6) = Inr (Fin 0)
         \<and> circle_ieee x 0.125 0.9 (- 0.025) (0.775, 0.9) = Inr (Fin 0)
         \<and> s_offset x = 0"
proof -
  have small: "\<bar>0::real\<bar> \<le> safe_magnitude" "\<bar>0.2\<bar> \<le> safe_magnitude"
    "\<bar>0.4\<bar> \<le> safe_magnitude" "\<bar>0.125\<bar> \<le> safe_magnitude"
    "\<bar>0.9\<bar> \<le> safe_magnitude" "\<bar>- 0.025\<bar> \<le> safe_magnitude"
    using safe_magnitude_ge_1 by simp_all
  have "pyts_time_series_ieee x = Inr (Fin 0)"
    using assms by (intro pyts_time_series_ieee_agrees pyts_time_series_elem_outside)
  moreover have "circle_ieee x 0.2 0 0 (- 0.2, 0.2) = Inr (Fin 0)"
    using assms small by (intro circle_ieee_agrees circle_elem_outside) auto
  moreover have "circle_ieee x 0.2 0.4 0 (0.2, 0.6) = Inr (Fin 0)"
    using assms small by (intro circle_ieee_agrees circle_elem_outside) auto
  moreover have "circle_ieee x 0.125 0.9 (- 0.025) (0.775, 0.9) = Inr (Fin 0)"
    using assms small by (intro circle_ieee_agrees circle_elem_outside) auto
  moreover have "s_offset x = 0"
    using assms(1) by (auto simp add: s_offset_def)
  ultimately show ?thesis by simp
qed

theorem pyts_time_series_ieee_zero_outside_witness:
  "((2::real) < - 0.2 \<or> (2::real) > 1.2) \<and> \<bar>2\<bar> \<le> safe_magnitude
   \<and> pyts_time_series_ieee 2 = Inr (Fin 0)
   \<and> circle_ieee 2 0.2 0 0 (- 0.2, 0.2) = Inr (Fin 0)
   \<and> circle_ieee 2 0.2 0.4 0 (0.2, 0.6) = Inr (Fin 0)
   \<and> circle_ieee 2 0.125 0.9 (- 0.025) (0.775, 0.9) = Inr (Fin 0)
   \<and> s_offset 2 = 0"
proof -
  have h1: "(2::real) < - 0.2 \<or> (2::real) > 1.2" by simp
  have h2: "\<bar>2\<bar> \<le> safe_magnitude" by (simp add: safe_magnitude_def)
  show ?thesis
    using h1 h2 pyts_time_series_ieee_zero_outside [OF h1 h2] by simp
qed

text \<open>
  C9 as stated fails: \<open>x = 2 ^ 512\<close> is a finite double above 1.2 and the curve is NaN
  there.
\<close>

theorem pyts_time_series_ieee_nan_outside:
  "(2 ^ 512 :: real) > 1.2 \<and> pyts_time_series_ieee (2 ^ 512) = Inr NaN"
  using pyts_ieee_huge_x by simp

text \<open>
  C10, as the code has it. For arguments \<open>x\<close>, \<open>r\<close>, \<open>a\<close>, \<open>b\<close> of magnitude at most
  \<^verbatim>\<open>1e150\<close> and every interval, also for \<open>x\<close> inside the interval and further than \<open>r\<close>
  from the centre, \<^verbatim>\<open>circle\<close> does not raise and returns a finite number, never NaN:
  the clamp keeps the argument of the square root a non-negative finite number.
\<close>

theorem circle_ieee_total_in_range:
  assumes "\<bar>x\<bar> \<le> safe_magnitude" and "\<bar>r\<bar> \<le> safe_magnitude"
    and "\<bar>a\<bar> \<le> safe_magnitude" and "\<bar>b\<bar> \<le> safe_magnitude"
  shows "(\<exists>v. circle_ieee x r a b x_lim = Inr (Fin v))
         \<and> (\<exists>u. 0 \<le> u \<and> circle_sqrt_arg_ieee x (r ^ 2) a x_lim = Fin u)"
proof -
  have "circle_sqrt_arg_ieee x (r ^ 2) a x_lim = Fin (circle_sqrt_arg x r a x_lim)"
    using assms(1-3) by (rule circle_sqrt_arg_ieee_in_range)
  then have "\<exists>u. 0 \<le> u \<and> circle_sqrt_arg_ieee x (r ^ 2) a x_lim = Fin u"
    using circle_sqrt_arg_nonneg [of x r a x_lim] by simp
  then show ?thesis by (simp add: circle_ieee_in_range [OF assms])
qed

theorem circle_ieee_total_in_range_witness:
  "\<bar>0.5\<bar> \<le> safe_magnitude \<and> \<bar>0.1\<bar> \<le> safe_magnitude \<and> \<bar>0\<bar> \<le> safe_magnitude
   \<and> (\<exists>v. circle_ieee 0.5 0.1 0 0 (0, 1) = Inr (Fin v))
   \<and> (\<exists>u. 0 \<le> u \<and> circle_sqrt_arg_ieee 0.5 (0.1 ^ 2) 0 (0, 1) = Fin u)"
proof -
  have h: "\<bar>0.5\<bar> \<le> safe_magnitude" "\<bar>0.1\<bar> \<le> safe_magnitude" "\<bar>0\<bar> \<le> safe_magnitude"
    using safe_magnitude_ge_1 by simp_all
  show ?thesis
    using h circle_ieee_total_in_range [OF h(1) h(2) h(3) h(3), of "(0, 1)"] by simp
qed

text \<open>
  C10 as stated fails twice: a radius of \<open>2 ^ 512\<close> makes \<^verbatim>\<open>r ** 2\<close> raise
  \<^verbatim>\<open>OverflowError\<close>, and an \<open>x\<close> of \<open>2 ^ 512\<close> makes the result NaN.
\<close>

theorem circle_ieee_raises_or_nan:
  "circle_ieee 0 (2 ^ 512) 0 0 (- 0.2, 0.2) = Inl OverflowError
   \<and> circle_ieee (2 ^ 512) 1 0 0 (0, 1) = Inr NaN"
proof -
  have "circle_ieee (2 ^ 512) 1 0 0 (0, 1) = Inr NaN"
    using safe_magnitude_ge_1 by (intro circle_ieee_huge_x) simp_all
  then show ?thesis using circle_ieee_huge_r by simp
qed

text \<open>
  C7. \<^verbatim>\<open>maximum\<close> returns the element-wise maximum of its input and 0; on
  \<open>[-1, 0, 2]\<close> it returns \<open>[0, 0, 2]\<close>.
\<close>

theorem maximum_clamps_at_zero:
  "maximum x = map (\<lambda>v. max v 0) x \<and> maximum [- 1, 0, 2] = [0, 0, 2]"
  by (simp add: maximum_def maximum_elem_def)

section \<open>The ribbon and the saved file\<close>

text \<open>
  C5, as the code has it. The ribbon is a four-sided polygon, the trapezoid of the
  source's comment: whatever the arguments, exactly one polygon is drawn and it has
  exactly four vertices, all different, fixed by the breakpoints \<open>left = 0.3\<close>,
  \<open>center = 0.4\<close>, \<open>right = 0.6\<close> at \<open>(left, right)\<close>, \<open>(center, right)\<close>,
  \<open>(right, center)\<close>, \<open>(right, left)\<close>.
\<close>

theorem ribbon_polygon_four_vertices:
  "polygons (make_github_ribbon background_color text_color text fontsize figsize
               output_file dpi)
     = [[(0.3, 0.6), (0.4, 0.6), (0.6, 0.4), (0.6, 0.3)]]
   \<and> map length (polygons (make_github_ribbon background_color text_color text fontsize
                             figsize output_file dpi)) = [4]
   \<and> distinct [(0.3, 0.6), (0.4, 0.6), (0.6, 0.4), (0.6, 0.3 :: real) :: real \<times> real]"
  by (cases output_file) (simp_all add: make_github_ribbon_def Let_def)

text \<open>C5 as stated fails: with the default arguments the polygon does not have three vertices.\<close>

theorem ribbon_polygon_not_triangle:
  "map length (polygons (make_github_ribbon ''darkslategray'' ''white''
                           ''Fork me on GitHub'' 14 (3, 3) None 400)) \<noteq> [3]"
  by (simp add: make_github_ribbon_def Let_def)

text \<open>
  C8. \<^verbatim>\<open>make_github_ribbon\<close> sets the limits of both axes exactly once, to
  \<open>(left, right) = (0.3, 0.6)\<close>, and that is the bounding box of the polygon it draws.
\<close>

theorem ribbon_view_bounds:
  "xlims (make_github_ribbon background_color text_color text fontsize figsize
            output_file dpi) = [(0.3, 0.6)]
   \<and> ylims (make_github_ribbon background_color text_color text fontsize figsize
              output_file dpi) = [(0.3, 0.6)]
   \<and> (\<exists>xy. polygons (make_github_ribbon background_color text_color text fontsize figsize
                        output_file dpi) = [xy]
           \<and> Min (set (map fst xy)) = 0.3 \<and> Max (set (map fst xy)) = 0.6
           \<and> Min (set (map snd xy)) = 0.3 \<and> Max (set (map snd xy)) = 0.6)"
  by (cases output_file) (simp_all add: make_github_ribbon_def Let_def)

text \<open>
  C6. Both entry points save a file exactly when \<open>output_file\<close> is not \<open>None\<close>: with
  \<open>None\<close> the run has no save call and only displays; with a path the run has one save
  call, with that path and the given dpi, issued before the one display call.
\<close>

theorem savefig_iff_output_file:
  "(savefig_calls (make_github_ribbon background_color text_color text fontsize figsize
                     output_file dpi) \<noteq> []) = (output_file \<noteq> None)
   \<and> (savefig_calls (make_pyts_logo cmap background_color output_file dpi) \<noteq> [])
       = (output_file \<noteq> None)
   \<and> save_show_calls (make_github_ribbon background_color text_color text fontsize figsize
                        None dpi) = [PltShow]
   \<and> save_show_calls (make_pyts_logo cmap background_color None dpi) = [PltShow]
   \<and> save_show_calls (make_github_ribbon background_color text_color text fontsize figsize
                        (Some fname) dpi) = [PltSavefig fname dpi (Some True), PltShow]
   \<and> save_show_calls (make_pyts_logo cmap background_color (Some fname) dpi)
       = [PltSavefig fname dpi None, PltShow]"
  by (cases output_file) (simp_all add: make_github_ribbon_def make_pyts_logo_def Let_def)

end
